theory Spec2Isabelle
  imports Main "HOL-Library.Word"
begin

unbundle bit_operations_syntax

section \<open>revoco: data model\<close>

text \<open>
  The program drives the wheel of a Logitech MX-Revolution mouse through hidraw reports.
  Bytes (\<open>u8\<close>, unsigned char) are 8-bit words.  C strings are \<open>string\<close>s: the
  terminating NUL is the end of the list, so \<open>*p == 0\<close> is \<open>p = []\<close>, and a
  \<open>char *\<close> into a string is the suffix it points at.
\<close>

type_synonym u8 = "8 word"

text \<open>
  \<open>fatal\<close> prints a message and exits with status 1.  The value records which of the four
  messages of \<open>onearg\<close>, \<open>twoargs\<close>, \<open>nargs\<close> and \<open>configure\<close> was printed, with its
  arguments: \<open>bad argument `str': `c' expected\<close>, \<open>argument `sub' out of range (min-max)\<close>,
  \<open>malformed argument `str'\<close> and \<open>unknown option `str'\<close>.
\<close>

datatype fatal =
    BadArgument string char
  | ArgumentOutOfRange string int int
  | MalformedArgument string
  | UnknownOption string

text \<open>The two error kinds of the argument decoder.\<close>

fun is_malformed :: "fatal \<Rightarrow> bool" where
  "is_malformed (BadArgument s c) = True"
| "is_malformed (MalformedArgument s) = True"
| "is_malformed e = False"

fun is_out_of_range :: "fatal \<Rightarrow> bool" where
  "is_out_of_range (ArgumentOutOfRange s lo hi) = True"
| "is_out_of_range e = False"

definition decode_error :: "fatal \<Rightarrow> bool" where
  "decode_error e = (is_malformed e \<or> is_out_of_range e)"

section \<open>strtol with base 0\<close>

text \<open>
  \<open>strtol(s, &end, 0)\<close> of the C library: white space is skipped, then an optional sign,
  then \<open>0x\<close>/\<open>0X\<close> before a hexadecimal digit selects base 16, a leading \<open>0\<close> base 8,
  anything else base 10; the longest run of digits of that base is converted.  With no
  digit, the value is 0 and \<open>end\<close> is \<open>s\<close> itself.  A value outside \<open>long\<close> (64 bits) is
  clamped to \<open>LONG_MAX\<close> or \<open>LONG_MIN\<close>.  The model returns the value and the number of
  characters between \<open>s\<close> and \<open>end\<close>.
\<close>

definition isspace :: "char \<Rightarrow> bool" where
  "isspace c = (c = CHR '' '' \<or> (9 \<le> (of_char c :: nat) \<and> (of_char c :: nat) \<le> 13))"

definition digit_of :: "char \<Rightarrow> nat option" where
  "digit_of c =
     (let k = (of_char c :: nat) in
      if 48 \<le> k \<and> k \<le> 57 then Some (k - 48)
      else if 97 \<le> k \<and> k \<le> 122 then Some (k - 87)
      else if 65 \<le> k \<and> k \<le> 90 then Some (k - 55)
      else None)"

definition is_digit :: "nat \<Rightarrow> char \<Rightarrow> bool" where
  "is_digit b c = (case digit_of c of None \<Rightarrow> False | Some d \<Rightarrow> d < b)"

fun digits :: "nat \<Rightarrow> string \<Rightarrow> nat \<Rightarrow> nat \<Rightarrow> nat \<times> nat" where
  "digits b [] acc k = (acc, k)"
| "digits b (c # cs) acc k =
     (if is_digit b c then digits b cs (acc * b + the (digit_of c)) (Suc k) else (acc, k))"

definition LONG_MAX :: int where
  "LONG_MAX = 9223372036854775807"

definition LONG_MIN :: int where
  "LONG_MIN = - 9223372036854775808"

definition to_long :: "int \<Rightarrow> int" where
  "to_long v = (if v > LONG_MAX then LONG_MAX else if v < LONG_MIN then LONG_MIN else v)"

definition strtol :: "string \<Rightarrow> int \<times> nat" where
  "strtol s =
     (let ws = length (takeWhile isspace s);
          s1 = dropWhile isspace s;
          neg = (s1 \<noteq> [] \<and> hd s1 = CHR ''-'');
          sg = (if s1 \<noteq> [] \<and> (hd s1 = CHR ''-'' \<or> hd s1 = CHR ''+'') then 1 else 0);
          s2 = drop sg s1;
          hex = (case s2 of
                   z # x # h # r \<Rightarrow>
                     z = CHR ''0'' \<and> (x = CHR ''x'' \<or> x = CHR ''X'') \<and> is_digit 16 h
                 | _ \<Rightarrow> False);
          base = (if hex then 16 else if s2 \<noteq> [] \<and> hd s2 = CHR ''0'' then 8 else 10);
          pre = (if hex then 2 else 0);
          (v, k) = digits base (drop pre s2) 0 0
      in if k = 0 then (0, 0)
         else (to_long (if neg then - int v else int v), ws + sg + pre + k))"

section \<open>The argument decoder\<close>

text \<open>
  \<open>onearg(str, prefix, arg, def, min, max)\<close> stores into the byte \<open>*arg\<close> and returns the
  rest of the text; the model returns both, or the \<open>fatal\<close> that ended the process.
  Storing an \<open>int\<close> or \<open>long\<close> into an unsigned char keeps its low 8 bits
  (\<open>word_of_int\<close>).  The range test is on the \<open>long\<close> value, not on the stored byte.
\<close>

definition onearg :: "string \<Rightarrow> char \<Rightarrow> int \<Rightarrow> int \<Rightarrow> int \<Rightarrow> fatal + (u8 \<times> string)" where
  "onearg str prefix def mn mx =
     (if str = [] then Inr (word_of_int def, str)
      else if hd str \<noteq> prefix then Inl (BadArgument str prefix)
      else
        let s = tl str; (n, k) = strtol s in
        if k \<noteq> 0 then
          (if n < mn \<or> n > mx then Inl (ArgumentOutOfRange (take k s) mn mx)
           else Inr (word_of_int n, drop k s))
        else Inr (word_of_int def, drop k s))"

definition twoargs :: "string \<Rightarrow> int \<Rightarrow> int \<Rightarrow> int \<Rightarrow> fatal + (u8 \<times> u8)" where
  "twoargs str def mn mx =
     (case onearg str CHR ''='' def mn mx of
        Inl e \<Rightarrow> Inl e
      | Inr (arg1, p) \<Rightarrow>
          (case onearg p CHR '','' (uint arg1) mn mx of
             Inl e \<Rightarrow> Inl e
           | Inr (arg2, p') \<Rightarrow>
               if p' \<noteq> [] then Inl (MalformedArgument str) else Inr (arg1, arg2)))"

text \<open>
  The loop of \<open>nargs\<close>: \<open>n\<close> rounds, each counting in \<open>i\<close> whether text was left before
  it, and storing one byte.  The result is the bytes stored, the count and the text left.
\<close>

fun nargs_loop ::
  "nat \<Rightarrow> string \<Rightarrow> char \<Rightarrow> int \<Rightarrow> int \<Rightarrow> int \<Rightarrow> int \<Rightarrow> fatal + (u8 list \<times> int \<times> string)" where
  "nargs_loop 0 p del i def mn mx = Inr ([], i, p)"
| "nargs_loop (Suc n) p del i def mn mx =
     (case onearg p del def mn mx of
        Inl e \<Rightarrow> Inl e
      | Inr (a, p') \<Rightarrow>
          (case nargs_loop n p' CHR '','' (if p \<noteq> [] then i + 1 else i) def mn mx of
             Inl e \<Rightarrow> Inl e
           | Inr (buf, i', q) \<Rightarrow> Inr (a # buf, i', q)))"

definition nargs :: "string \<Rightarrow> nat \<Rightarrow> int \<Rightarrow> int \<Rightarrow> int \<Rightarrow> fatal + (u8 list \<times> int)" where
  "nargs str n def mn mx =
     (case nargs_loop n str CHR ''='' 0 def mn mx of
        Inl e \<Rightarrow> Inl e
      | Inr (buf, i, p) \<Rightarrow> if p \<noteq> [] then Inl (MalformedArgument str) else Inr (buf, i))"

section \<open>The device channel\<close>

text \<open>
  What the process does to the outside world is a trace of events, in order: a
  \<open>write\<close> on the device with the bytes handed to it, a call of \<open>query_report\<close> (a
  blocking \<open>read\<close>) with its report id and length arguments, a message on standard output,
  and a \<open>sleep\<close>.  Messages are kept by kind and arguments, not as formatted text.
\<close>

datatype battery_state = RunningOnBattery | Charging | FullyCharged | Status u8

datatype message =
    BadAnswer "u8 list"
  | ReconnectionInitiated
  | ClickByClick
  | FreeSpinning
  | BatteryLevel u8 battery_state
  | Report u8 "u8 list"

datatype event =
    Write "u8 list"
  | Read u8 int
  | Print message
  | Sleep u8

text \<open>
  \<open>first_byte\<close> is the static variable set by \<open>open_dev\<close>; \<open>inbound\<close> holds the bytes
  that the coming reads deliver, one entry per read that returns; \<open>uninit\<close> is what the
  buffers of \<open>configure\<close>, which are not initialised, hold at each index before a read;
  \<open>trace\<close> is what happened so far.  A failed \<open>write\<close> or \<open>read\<close> only prints a
  diagnostic and goes on, so a write is recorded whether it fails or not, and a read with
  no inbound entry is a read that fails and leaves the buffer as it was.  A read that
  never returns has no result and is not modelled.
\<close>

record dev =
  first_byte :: u8
  inbound :: "u8 list list"
  uninit :: "nat \<Rightarrow> u8"
  trace :: "event list"

definition emit :: "event \<Rightarrow> dev \<Rightarrow> dev" where
  "emit e d = d\<lparr>trace := trace d @ [e]\<rparr>"

text \<open>
  \<open>send_report(fd, id, buf, n)\<close> fills \<open>send_buf\<close> with \<open>id\<close> and \<open>buf[0..n-1]\<close> and
  calls \<open>write(fd, send_buf, n+1)\<close>: the bytes written are the first \<open>n+1\<close> of
  \<open>send_buf\<close>, none when \<open>n+1\<close> is 0.
\<close>

definition send_report :: "u8 \<Rightarrow> u8 list \<Rightarrow> int \<Rightarrow> dev \<Rightarrow> dev" where
  "send_report rid buf n d =
     emit (Write (if n + 1 \<le> 0 then [] else rid # take (nat n) buf)) d"

text \<open>
  \<open>query_report(fd, id, buf, n)\<close> reads \<open>n+1\<close> bytes into \<open>buf\<close>; \<open>id\<close> is not used
  by the read.  The model returns the first \<open>n+1\<close> bytes of the buffer: those of the
  next inbound entry, and for each byte the read did not fill, what the buffer held there
  before.
\<close>

definition query_report :: "u8 \<Rightarrow> int \<Rightarrow> dev \<Rightarrow> u8 list \<times> dev" where
  "query_report rid n d =
     (let frame = (case inbound d of [] \<Rightarrow> [] | f # fs \<Rightarrow> f);
          got = take (nat (n + 1)) frame;
          buf = got @ map (uninit d) [length got ..< nat (n + 1)]
      in (buf, emit (Read rid n) (d\<lparr>inbound := tl (inbound d)\<rparr>)))"

definition mx_cmd :: "u8 \<Rightarrow> u8 \<Rightarrow> u8 \<Rightarrow> dev \<Rightarrow> dev" where
  "mx_cmd b1 b2 b3 d = send_report 0x10 [first_byte d, 0x80, 0x56, b1, b2, b3] 6 d"

text \<open>
  The test of \<open>mx_query\<close> on the answer, after the loop \<open>res[i] = res[i+1]\<close> has dropped its
  first byte: the condition of the \<open>if\<close> that prints \<open>bad answer\<close> and returns 0.
\<close>

definition bad_answer :: "u8 list \<Rightarrow> bool" where
  "bad_answer res =
     ((((res ! 0 \<noteq> 0x02 \<and> res ! 0 \<noteq> 0x01 \<and> res ! 0 \<noteq> 0x00) \<or>
        res ! 1 \<noteq> 0x81 \<or>
        (res ! 2 \<noteq> 0xb1 \<and> res ! 2 \<noteq> 0x08))) \<and>
      ((res ! 0 \<noteq> 0x02 \<and> res ! 0 \<noteq> 0x01 \<and> res ! 0 \<noteq> 0x00) \<or>
        res ! 1 \<noteq> 0x81 \<or>
        (res ! 2 \<noteq> 0x0d \<and> res ! 2 \<noteq> 0x08)))"

text \<open>
  \<open>mx_query(fd, b1, res)\<close>: the query frame is written, seven bytes are read, the first is
  dropped, and the six left are tested.  The result is the return value (1 as \<open>True\<close>),
  the six bytes and the device.
\<close>

definition mx_query :: "u8 \<Rightarrow> dev \<Rightarrow> bool \<times> u8 list \<times> dev" where
  "mx_query b1 d =
     (let d1 = send_report 0x10 [first_byte d, 0x81, b1, 0, 0, 0] 6 d;
          (raw, d2) = query_report 0x10 6 d1;
          res = tl raw
      in if bad_answer res then (False, res, emit (Print (BadAnswer res)) d2)
         else (True, res, d2))"

section \<open>The command interpreter\<close>

definition streq :: "string \<Rightarrow> string \<Rightarrow> bool" where
  "streq a b = (a = b)"

text \<open>\<open>strncmp(a, b, n) == 0\<close>: the strings agree on their first \<open>n\<close> characters.\<close>

definition strneq :: "string \<Rightarrow> string \<Rightarrow> nat \<Rightarrow> bool" where
  "strneq a b n = (take n a = take n b)"

text \<open>The two calls of \<open>mx_cmd\<close> of the \<open>manual\<close> command.\<close>

definition manual_cmd :: "u8 \<Rightarrow> u8 \<Rightarrow> u8 \<Rightarrow> dev \<Rightarrow> dev" where
  "manual_cmd perm arg1 arg2 d =
     (if arg1 \<noteq> arg2 then mx_cmd (perm + 7) (arg1 * 16 + arg2) 0 d
      else mx_cmd (perm + 8) arg1 0 d)"

definition battery_st :: "u8 \<Rightarrow> battery_state" where
  "battery_st b =
     (if b = 0x30 then RunningOnBattery
      else if b = 0x50 then Charging
      else if b = 0x90 then FullyCharged
      else Status b)"

text \<open>
  The test \<open>arg1 == -1\<close> of the \<open>query\<close> command: the byte is promoted to \<open>int\<close> for
  the comparison, that is, read as a value from 0 to 255.
\<close>

definition is_minus_one :: "u8 \<Rightarrow> bool" where
  "is_minus_one arg = (uint arg = - 1)"

text \<open>
  One round of the loop of \<open>configure\<close>, on the token \<open>argv[i]\<close>.  \<open>Inl\<close> is a call of
  \<open>fatal\<close>; in every branch it comes before the branch has touched the device.
\<close>

definition configure_token :: "string \<Rightarrow> dev \<Rightarrow> fatal + dev" where
  "configure_token tok d =
     (let temp = strneq tok ''temp-'' 5;
          perm = (if temp then 0 else 0x80 :: u8);
          cmd = (if temp then drop 5 tok else tok)
      in
      if streq cmd ''free'' then Inr (mx_cmd (perm + 1) 0 0 d)
      else if streq cmd ''click'' then Inr (mx_cmd (perm + 2) 0 0 d)
      else if strneq cmd ''manual'' 6 then
        (case twoargs (drop 6 cmd) 0 0 15 of
           Inl e \<Rightarrow> Inl e
         | Inr (arg1, arg2) \<Rightarrow> Inr (manual_cmd perm arg1 arg2 d))
      else if strneq cmd ''auto'' 4 then
        (case twoargs (drop 4 cmd) 0 0 50 of
           Inl e \<Rightarrow> Inl e
         | Inr (arg1, arg2) \<Rightarrow> Inr (mx_cmd (perm + 5) arg1 arg2 d))
      else if strneq tok ''soft-free'' 9 then
        (case twoargs (drop 9 tok) 0 0 255 of
           Inl e \<Rightarrow> Inl e
         | Inr (arg1, arg2) \<Rightarrow> Inr (mx_cmd 3 arg1 arg2 d))
      else if strneq tok ''soft-click'' 10 then
        (case twoargs (drop 10 tok) 0 0 255 of
           Inl e \<Rightarrow> Inl e
         | Inr (arg1, arg2) \<Rightarrow> Inr (mx_cmd 4 arg1 arg2 d))
      else if strneq tok ''reconnect'' 9 then
        (case twoargs (drop 9 tok) 0 0 255 of
           Inl e \<Rightarrow> Inl e
         | Inr (arg1, arg2) \<Rightarrow>
             Inr (emit (Print ReconnectionInitiated)
                    (send_report 0x10 [0xff, 0x80, 0xb2, 1, 0, 0] 6 d)))
      else if strneq tok ''mode'' 4 then
        (case mx_query 0x08 d of
           (ok, buf, d') \<Rightarrow>
             Inr (if ok then
                    (if buf ! 5 AND 1 \<noteq> 0 then emit (Print ClickByClick) d'
                     else emit (Print FreeSpinning) d')
                  else d'))
      else if strneq tok ''battery'' 7 then
        (case mx_query 0x0d d of
           (ok, buf, d') \<Rightarrow>
             Inr (if ok then emit (Print (BatteryLevel (buf ! 3) (battery_st (buf ! 5)))) d'
                  else d'))
      else if strneq tok ''raw'' 3 then
        (case nargs (drop 3 tok) 256 0 0 255 of
           Inl e \<Rightarrow> Inl e
         | Inr (buf, i) \<Rightarrow>
             let n = (word_of_int i :: u8) in
             Inr (send_report (buf ! 0) (tl buf) (uint n - 1) d))
      else if strneq tok ''query'' 5 then
        (case twoargs (drop 5 tok) (- 1) 0 255 of
           Inl e \<Rightarrow> Inl e
         | Inr (a1, a2) \<Rightarrow>
             let (arg1, arg2) = (if is_minus_one a1 then (0x10, 6) else (a1, a2));
                 (buf, d') = query_report arg1 (uint arg2) d
             in Inr (emit (Print (Report arg1 (take (unat arg2) buf))) d'))
      else if strneq tok ''sleep'' 5 then
        (case twoargs (drop 5 tok) 1 0 255 of
           Inl e \<Rightarrow> Inl e
         | Inr (arg1, arg2) \<Rightarrow> Inr (emit (Sleep arg1) d))
      else Inl (UnknownOption tok))"

text \<open>
  \<open>configure(handle, argc, argv)\<close> on the tokens \<open>argv[1..argc-1]\<close>: the device when the
  process stopped, and the \<open>fatal\<close> that stopped it, if one did.
\<close>

fun configure :: "string list \<Rightarrow> dev \<Rightarrow> dev \<times> fatal option" where
  "configure [] d = (d, None)"
| "configure (tok # toks) d =
     (case configure_token tok d of
        Inl e \<Rightarrow> (d, Some e)
      | Inr d' \<Rightarrow> configure toks d')"

text \<open>The reports written so far, each as the bytes handed to \<open>write\<close>.\<close>

fun written :: "event list \<Rightarrow> u8 list list" where
  "written [] = []"
| "written (Write bs # es) = bs # written es"
| "written (e # es) = written es"

text \<open>A device of the mouse family on which nothing has happened yet, for the examples.\<close>

definition dev0 :: dev where
  "dev0 = \<lparr>first_byte = 1, inbound = [], uninit = (\<lambda>i. 0), trace = []\<rparr>"

section \<open>Basic facts about the device channel\<close>

lemmas strtol_eval =
  strtol_def isspace_def is_digit_def digit_of_def to_long_def LONG_MAX_def LONG_MIN_def

lemmas tok_eval =
  configure_token_def strneq_def streq_def twoargs_def onearg_def strtol_eval

lemma written_append: "written (es @ fs) = written es @ written fs"
  by (induction es rule: written.induct) simp_all

lemma emit_fields [simp]:
  "first_byte (emit e d) = first_byte d"
  "inbound (emit e d) = inbound d"
  "uninit (emit e d) = uninit d"
  "trace (emit e d) = trace d @ [e]"
  by (simp_all add: emit_def)

lemma send_report_fields [simp]:
  "first_byte (send_report rid buf n d) = first_byte d"
  "inbound (send_report rid buf n d) = inbound d"
  "uninit (send_report rid buf n d) = uninit d"
  "trace (send_report rid buf n d) =
     trace d @ [Write (if n + 1 \<le> 0 then [] else rid # take (nat n) buf)]"
  by (simp_all add: send_report_def)

lemma mx_cmd_fields [simp]:
  "first_byte (mx_cmd b1 b2 b3 d) = first_byte d"
  "inbound (mx_cmd b1 b2 b3 d) = inbound d"
  "trace (mx_cmd b1 b2 b3 d) = trace d @ [Write [0x10, first_byte d, 0x80, 0x56, b1, b2, b3]]"
  by (simp_all add: mx_cmd_def send_report_def)

lemma dev0_fields [simp]:
  "first_byte dev0 = 1"
  "inbound dev0 = []"
  "trace dev0 = []"
  by (simp_all add: dev0_def)

lemma query_report_full:
  "inbound d = f # fs \<Longrightarrow> int (length f) = n + 1 \<Longrightarrow>
   query_report rid n d = (f, emit (Read rid n) (d\<lparr>inbound := fs\<rparr>))"
  by (simp add: query_report_def)

section \<open>Validation of query answers\<close>

lemma mx_query_result:
  "mx_query b1 d = (ok, res, d') \<Longrightarrow>
     ok = (res ! 0 \<in> {0x00, 0x01, 0x02} \<and> res ! 1 = 0x81 \<and> res ! 2 \<in> {0xb1, 0x08, 0x0d})"
  by (auto simp: mx_query_def bad_answer_def Let_def split: prod.splits if_splits)

text \<open>
  Claim C1, as the code has it.  Whatever the query (\<open>b1\<close> is 0x08 for \<open>mode\<close>, 0x0d for
  \<open>battery\<close>), when the read delivers seven bytes, \<open>mx_query\<close> drops the first and accepts
  the remaining six exactly when byte 0 is 0x00, 0x01 or 0x02, byte 1 is 0x81 and byte 2
  is 0xb1, 0x08 or 0x0d: one set of subcodes, the union of the two of the claim, for both
  kinds of query.  A rejected answer is printed as \<open>bad answer\<close> and nothing else happens.
\<close>

theorem mx_query_accepts_union:
  assumes "inbound d = f # fs" and "length f = 7" and "mx_query b1 d = (ok, res, d')"
  shows "res = tl f \<and>
         ok = (res ! 0 \<in> {0x00, 0x01, 0x02} \<and> res ! 1 = 0x81 \<and> res ! 2 \<in> {0xb1, 0x08, 0x0d}) \<and>
         trace d' = trace d @ [Write [0x10, first_byte d, 0x81, b1, 0, 0, 0], Read 0x10 6] @
                      (if ok then [] else [Print (BadAnswer res)])"
proof -
  have q: "query_report 0x10 6 (send_report 0x10 [first_byte d, 0x81, b1, 0, 0, 0] 6 d) =
      (f, emit (Read 0x10 6) (send_report 0x10 [first_byte d, 0x81, b1, 0, 0, 0] 6 d\<lparr>inbound := fs\<rparr>))"
    using assms(1,2) by (simp add: query_report_full)
  have r: "res = tl f"
    using assms(3) by (auto simp: mx_query_def q Let_def split: if_splits)
  have t: "trace d' = trace d @ [Write [0x10, first_byte d, 0x81, b1, 0, 0, 0], Read 0x10 6] @
                      (if ok then [] else [Print (BadAnswer res)])"
    using assms(3)
    by (auto simp: mx_query_def q Let_def split: if_splits)
  show ?thesis using r t mx_query_result [OF assms(3)] by blast
qed

text \<open>
  The theorem at a battery query whose answer carries the subcode 0xb1 of the mode query:
  it is accepted.
\<close>

theorem mx_query_accepts_union_witness:
  "mx_query 0x0d (dev0\<lparr>inbound := [[0x10, 0x02, 0x81, 0xb1, 0x50, 0x00, 0x30]]\<rparr>) =
     (True, [0x02, 0x81, 0xb1, 0x50, 0x00, 0x30],
      dev0\<lparr>trace := [Write [0x10, 1, 0x81, 0x0d, 0, 0, 0], Read 0x10 6]\<rparr>)"
proof -
  let ?d = "dev0\<lparr>inbound := [[0x10, 0x02, 0x81, 0xb1, 0x50, 0x00, 0x30]]\<rparr>"
  obtain ok res d' where m: "mx_query 0x0d ?d = (ok, res, d')"
    by (cases "mx_query 0x0d ?d") blast
  have i: "inbound ?d = [0x10, 0x02, 0x81, 0xb1, 0x50, 0x00, 0x30] # []" by simp
  have l: "length [0x10, 0x02, 0x81, 0xb1, 0x50, 0x00, 0x30 :: u8] = 7" by simp
  have "res = [0x02, 0x81, 0xb1, 0x50, 0x00, 0x30] \<and> ok"
    using mx_query_accepts_union [OF i l m] by simp
  moreover have "d' = dev0\<lparr>trace := [Write [0x10, 1, 0x81, 0x0d, 0, 0, 0], Read 0x10 6]\<rparr>"
    using m by (simp add: mx_query_def query_report_def send_report_def emit_def
        bad_answer_def dev0_def)
  ultimately show ?thesis using m by simp
qed

text \<open>
  Against claim C1 as stated: a mode query (subcode 0x08) whose answer has byte 2 equal
  to 0x0d, which is not in the mode query's set, is accepted all the same.
\<close>

theorem mode_query_accepts_battery_subcode:
  "fst (mx_query 0x08 (dev0\<lparr>inbound := [[0x10, 0x01, 0x81, 0x0d, 0x50, 0x00, 0x30]]\<rparr>)) \<and>
   fst (snd (mx_query 0x08 (dev0\<lparr>inbound := [[0x10, 0x01, 0x81, 0x0d, 0x50, 0x00, 0x30]]\<rparr>)))
     = [0x01, 0x81, 0x0d, 0x50, 0x00, 0x30] \<and>
   (0x0d :: u8) \<noteq> 0xb1 \<and> (0x0d :: u8) \<noteq> 0x08"
  by (simp add: mx_query_def query_report_def send_report_def emit_def bad_answer_def dev0_def)

section \<open>A failing token stops the run where it stands\<close>

text \<open>
  Claim C2, as the code has it.  When the tokens before \<open>tok\<close> run without a fatal error
  and leave the device in \<open>d1\<close>, and \<open>tok\<close> then fails, the run stops with that error and
  the device still in \<open>d1\<close>: what the earlier tokens wrote has been written, and neither
  \<open>tok\<close> nor any later token touches the device.
\<close>

theorem configure_append_abort:
  "configure pre d = (d1, None) \<Longrightarrow> configure_token tok d1 = Inl e \<Longrightarrow>
   configure (pre @ tok # post) d = (d1, Some e)"
proof (induction pre arbitrary: d)
  case Nil
  then show ?case by simp
next
  case (Cons t ts)
  then show ?case by (cases "configure_token t d") auto
qed

theorem configure_append_abort_witness:
  "configure ([''free''] @ ''manual=99'' # [''click'']) dev0 =
     (mx_cmd 0x81 0 0 dev0, Some (ArgumentOutOfRange ''99'' 0 15))"
proof -
  have a: "configure [''free''] dev0 = (mx_cmd 0x81 0 0 dev0, None)"
    by (simp add: tok_eval)
  have b: "configure_token ''manual=99'' (mx_cmd 0x81 0 0 dev0) =
      Inl (ArgumentOutOfRange ''99'' 0 15)"
    by (simp add: tok_eval)
  show ?thesis using configure_append_abort [OF a b] by simp
qed

text \<open>
  Against claim C2 as stated: in \<open>revoco free manual=99\<close> the second token is out of
  range, and the report of \<open>free\<close> has been written when the run aborts.
\<close>

theorem free_issued_before_abort:
  "configure [''free'', ''manual=99''] dev0 =
     (dev0\<lparr>trace := [Write [0x10, 1, 0x80, 0x56, 0x81, 0, 0]]\<rparr>,
      Some (ArgumentOutOfRange ''99'' 0 15)) \<and>
   decode_error (ArgumentOutOfRange ''99'' 0 15)"
  by (simp add: tok_eval mx_cmd_def send_report_def emit_def dev0_def decode_error_def)

section \<open>The manual command\<close>

lemma u8_nibbles:
  fixes up down :: u8
  assumes "unat up \<le> 15" "unat down \<le> 15"
  shows "unat (up * 16 + down) = unat up * 16 + unat down"
proof -
  have "unat up * 16 + unat down < 256" using assms by linarith
  then show ?thesis by (simp add: unat_word_ariths)
qed

text \<open>
  Claim C3.  For buttons \<open>up\<close> and \<open>down\<close> in 0..15 and \<open>perm\<close> the persistence bit (0x80
  or 0), the \<open>manual\<close> command writes one frame on report 0x10 whose opcode byte carries
  \<open>perm\<close> in bit 7 and, in its low seven bits, 7 when the buttons differ, with the next
  byte \<open>up*16 + down\<close> and the last byte 0, and 8 when they are equal, with the next byte
  \<open>up\<close>.
\<close>

theorem manual_cmd_encoding:
  assumes "unat up \<le> 15" and "unat down \<le> 15" and "perm = 0 \<or> perm = 0x80"
  shows "\<exists>opc pay.
          trace (manual_cmd perm up down d) =
            trace d @ [Write [0x10, first_byte d, 0x80, 0x56, opc, pay, 0]] \<and>
          opc AND 0x80 = perm \<and>
          (if up \<noteq> down then opc AND 0x7f = 7 \<and> unat pay = unat up * 16 + unat down
           else opc AND 0x7f = 8 \<and> pay = up)"
  using assms u8_nibbles [of up down] by (auto simp: manual_cmd_def)

theorem manual_cmd_encoding_witness:
  "trace (manual_cmd 0x80 4 5 dev0) = [Write [0x10, 1, 0x80, 0x56, 0x87, 0x45, 0]] \<and>
   trace (manual_cmd 0 4 4 dev0) = [Write [0x10, 1, 0x80, 0x56, 0x08, 0x04, 0]]"
proof -
  have "\<exists>opc pay.
          trace (manual_cmd 0x80 4 5 dev0) =
            trace dev0 @ [Write [0x10, first_byte dev0, 0x80, 0x56, opc, pay, 0]] \<and>
          opc AND 0x80 = 0x80 \<and>
          (if (4 :: u8) \<noteq> 5 then opc AND 0x7f = 7 \<and> unat pay = unat (4 :: u8) * 16 + unat (5 :: u8)
           else opc AND 0x7f = 8 \<and> pay = 4)"
    by (rule manual_cmd_encoding) simp_all
  then show ?thesis by (simp add: manual_cmd_def dev0_def)
qed

text \<open>
  Claim C8.  For buttons \<open>up \<noteq> down\<close> in 0..15, the payload byte of the frame that the
  \<open>manual\<close> command writes (byte 5 of the bytes written, after the report id, the family
  byte, 0x80, 0x56 and the opcode) gives the pair back as (byte div 16, byte mod 16).
\<close>

theorem manual_cmd_roundtrip:
  assumes "unat up \<le> 15" and "unat down \<le> 15" and "up \<noteq> down"
  shows "\<exists>bs. written (trace (manual_cmd perm up down d)) = written (trace d) @ [bs] \<and>
          (unat (bs ! 5) div 16, unat (bs ! 5) mod 16) = (unat up, unat down)"
  using assms u8_nibbles [of up down] by (simp add: manual_cmd_def written_append)

theorem manual_cmd_roundtrip_witness:
  "written (trace (manual_cmd 0x80 9 11 dev0)) = [[0x10, 1, 0x80, 0x56, 0x87, 0x9b, 0]] \<and>
   (unat (0x9b :: u8) div 16, unat (0x9b :: u8) mod 16) = (9, 11)"
proof -
  have "\<exists>bs. written (trace (manual_cmd 0x80 9 11 dev0)) = written (trace dev0) @ [bs] \<and>
          (unat (bs ! 5) div 16, unat (bs ! 5) mod 16) = (unat (9 :: u8), unat (11 :: u8))"
    by (rule manual_cmd_roundtrip) simp_all
  then show ?thesis by (simp add: manual_cmd_def dev0_def)
qed

section \<open>The persistence bit\<close>

lemmas branch_eval = configure_token_def strneq_def streq_def

text \<open>
  Claim C4.  Each of these tokens writes one frame on report 0x10, and the opcode byte of
  that frame (the byte after the report id, \<open>first_byte\<close>, 0x80 and 0x56) has its low
  seven bits equal to the base opcode of the command (1 for \<open>free\<close>, 2 for \<open>click\<close>, 7
  or 8 for \<open>manual\<close>, 5 for \<open>auto\<close>) and bit 0x80 set for the plain token and clear for
  the token with the prefix \<open>temp-\<close>.  \<open>soft-free\<close> and \<open>soft-click\<close> write the opcode
  bytes 3 and 4 as they are, and with the prefix \<open>temp-\<close> they are no command at all and
  write nothing.  The argument texts \<open>sm\<close>, \<open>sa\<close>, \<open>sf\<close> and \<open>sc\<close> are any that
  \<open>twoargs\<close> accepts with the bounds of the command.
\<close>

theorem persistence_bit:
  assumes m: "twoargs sm 0 0 15 = Inr (m1, m2)"
    and a: "twoargs sa 0 0 50 = Inr (a1, a2)"
    and f: "twoargs sf 0 0 255 = Inr (f1, f2)"
    and c: "twoargs sc 0 0 255 = Inr (c1, c2)"
  shows "(\<exists>d' opc. configure_token ''free'' d = Inr d' \<and>
            trace d' = trace d @ [Write [0x10, first_byte d, 0x80, 0x56, opc, 0, 0]] \<and>
            opc AND 0x80 = 0x80 \<and> opc AND 0x7f = 1) \<and>
         (\<exists>d' opc. configure_token ''temp-free'' d = Inr d' \<and>
            trace d' = trace d @ [Write [0x10, first_byte d, 0x80, 0x56, opc, 0, 0]] \<and>
            opc AND 0x80 = 0 \<and> opc AND 0x7f = 1) \<and>
         (\<exists>d' opc. configure_token ''click'' d = Inr d' \<and>
            trace d' = trace d @ [Write [0x10, first_byte d, 0x80, 0x56, opc, 0, 0]] \<and>
            opc AND 0x80 = 0x80 \<and> opc AND 0x7f = 2) \<and>
         (\<exists>d' opc. configure_token ''temp-click'' d = Inr d' \<and>
            trace d' = trace d @ [Write [0x10, first_byte d, 0x80, 0x56, opc, 0, 0]] \<and>
            opc AND 0x80 = 0 \<and> opc AND 0x7f = 2) \<and>
         (\<exists>d' opc pay. configure_token (''manual'' @ sm) d = Inr d' \<and>
            trace d' = trace d @ [Write [0x10, first_byte d, 0x80, 0x56, opc, pay, 0]] \<and>
            opc AND 0x80 = 0x80 \<and>
            (if m1 \<noteq> m2 then opc AND 0x7f = 7 \<and> pay = m1 * 16 + m2
             else opc AND 0x7f = 8 \<and> pay = m1)) \<and>
         (\<exists>d' opc pay. configure_token (''temp-manual'' @ sm) d = Inr d' \<and>
            trace d' = trace d @ [Write [0x10, first_byte d, 0x80, 0x56, opc, pay, 0]] \<and>
            opc AND 0x80 = 0 \<and>
            (if m1 \<noteq> m2 then opc AND 0x7f = 7 \<and> pay = m1 * 16 + m2
             else opc AND 0x7f = 8 \<and> pay = m1)) \<and>
         (\<exists>d' opc. configure_token (''auto'' @ sa) d = Inr d' \<and>
            trace d' = trace d @ [Write [0x10, first_byte d, 0x80, 0x56, opc, a1, a2]] \<and>
            opc AND 0x80 = 0x80 \<and> opc AND 0x7f = 5) \<and>
         (\<exists>d' opc. configure_token (''temp-auto'' @ sa) d = Inr d' \<and>
            trace d' = trace d @ [Write [0x10, first_byte d, 0x80, 0x56, opc, a1, a2]] \<and>
            opc AND 0x80 = 0 \<and> opc AND 0x7f = 5) \<and>
         (\<exists>d'. configure_token (''soft-free'' @ sf) d = Inr d' \<and>
            trace d' = trace d @ [Write [0x10, first_byte d, 0x80, 0x56, 3, f1, f2]]) \<and>
         (\<exists>d'. configure_token (''soft-click'' @ sc) d = Inr d' \<and>
            trace d' = trace d @ [Write [0x10, first_byte d, 0x80, 0x56, 4, c1, c2]]) \<and>
         configure_token (''temp-soft-free'' @ sf) d =
           Inl (UnknownOption (''temp-soft-free'' @ sf)) \<and>
         configure_token (''temp-soft-click'' @ sc) d =
           Inl (UnknownOption (''temp-soft-click'' @ sc))"
proof -
  have 1: "\<exists>d' opc. configure_token ''free'' d = Inr d' \<and>
            trace d' = trace d @ [Write [0x10, first_byte d, 0x80, 0x56, opc, 0, 0]] \<and>
            opc AND 0x80 = 0x80 \<and> opc AND 0x7f = 1"
    by (simp add: branch_eval)
  have 2: "\<exists>d' opc. configure_token ''temp-free'' d = Inr d' \<and>
            trace d' = trace d @ [Write [0x10, first_byte d, 0x80, 0x56, opc, 0, 0]] \<and>
            opc AND 0x80 = 0 \<and> opc AND 0x7f = 1"
    by (simp add: branch_eval)
  have 3: "\<exists>d' opc. configure_token ''click'' d = Inr d' \<and>
            trace d' = trace d @ [Write [0x10, first_byte d, 0x80, 0x56, opc, 0, 0]] \<and>
            opc AND 0x80 = 0x80 \<and> opc AND 0x7f = 2"
    by (simp add: branch_eval)
  have 4: "\<exists>d' opc. configure_token ''temp-click'' d = Inr d' \<and>
            trace d' = trace d @ [Write [0x10, first_byte d, 0x80, 0x56, opc, 0, 0]] \<and>
            opc AND 0x80 = 0 \<and> opc AND 0x7f = 2"
    by (simp add: branch_eval)
  have 5: "\<exists>d' opc pay. configure_token (''manual'' @ sm) d = Inr d' \<and>
            trace d' = trace d @ [Write [0x10, first_byte d, 0x80, 0x56, opc, pay, 0]] \<and>
            opc AND 0x80 = 0x80 \<and>
            (if m1 \<noteq> m2 then opc AND 0x7f = 7 \<and> pay = m1 * 16 + m2
             else opc AND 0x7f = 8 \<and> pay = m1)"
    by (simp add: branch_eval m manual_cmd_def)
  have 6: "\<exists>d' opc pay. configure_token (''temp-manual'' @ sm) d = Inr d' \<and>
            trace d' = trace d @ [Write [0x10, first_byte d, 0x80, 0x56, opc, pay, 0]] \<and>
            opc AND 0x80 = 0 \<and>
            (if m1 \<noteq> m2 then opc AND 0x7f = 7 \<and> pay = m1 * 16 + m2
             else opc AND 0x7f = 8 \<and> pay = m1)"
    by (simp add: branch_eval m manual_cmd_def)
  have 7: "\<exists>d' opc. configure_token (''auto'' @ sa) d = Inr d' \<and>
            trace d' = trace d @ [Write [0x10, first_byte d, 0x80, 0x56, opc, a1, a2]] \<and>
            opc AND 0x80 = 0x80 \<and> opc AND 0x7f = 5"
    by (simp add: branch_eval a)
  have 8: "\<exists>d' opc. configure_token (''temp-auto'' @ sa) d = Inr d' \<and>
            trace d' = trace d @ [Write [0x10, first_byte d, 0x80, 0x56, opc, a1, a2]] \<and>
            opc AND 0x80 = 0 \<and> opc AND 0x7f = 5"
    by (simp add: branch_eval a)
  have 9: "\<exists>d'. configure_token (''soft-free'' @ sf) d = Inr d' \<and>
            trace d' = trace d @ [Write [0x10, first_byte d, 0x80, 0x56, 3, f1, f2]]"
    by (simp add: branch_eval f)
  have 10: "\<exists>d'. configure_token (''soft-click'' @ sc) d = Inr d' \<and>
            trace d' = trace d @ [Write [0x10, first_byte d, 0x80, 0x56, 4, c1, c2]]"
    by (simp add: branch_eval c)
  have 11: "configure_token (''temp-soft-free'' @ sf) d =
      Inl (UnknownOption (''temp-soft-free'' @ sf))"
    by (simp add: branch_eval)
  have 12: "configure_token (''temp-soft-click'' @ sc) d =
      Inl (UnknownOption (''temp-soft-click'' @ sc))"
    by (simp add: branch_eval)
  show ?thesis using 1 2 3 4 5 6 7 8 9 10 11 12 by blast
qed

text \<open>
  The theorem at \<open>manual=3,4\<close>, \<open>auto=10,20\<close>, \<open>soft-free=3,7\<close> and \<open>soft-click\<close> on the
  fresh device: the frames written, byte by byte.
\<close>

theorem persistence_bit_witness:
  "(\<exists>d'. configure_token ''manual=3,4'' dev0 = Inr d' \<and>
      trace d' = [Write [0x10, 1, 0x80, 0x56, 0x87, 0x34, 0]]) \<and>
   (\<exists>d'. configure_token ''temp-manual=3,4'' dev0 = Inr d' \<and>
      trace d' = [Write [0x10, 1, 0x80, 0x56, 0x07, 0x34, 0]]) \<and>
   (\<exists>d'. configure_token ''auto=10,20'' dev0 = Inr d' \<and>
      trace d' = [Write [0x10, 1, 0x80, 0x56, 0x85, 10, 20]]) \<and>
   (\<exists>d'. configure_token ''temp-auto=10,20'' dev0 = Inr d' \<and>
      trace d' = [Write [0x10, 1, 0x80, 0x56, 0x05, 10, 20]]) \<and>
   (\<exists>d'. configure_token ''soft-free=3,7'' dev0 = Inr d' \<and>
      trace d' = [Write [0x10, 1, 0x80, 0x56, 3, 3, 7]]) \<and>
   (\<exists>d'. configure_token ''soft-click'' dev0 = Inr d' \<and>
      trace d' = [Write [0x10, 1, 0x80, 0x56, 4, 0, 0]]) \<and>
   configure_token ''temp-soft-free=3,7'' dev0 = Inl (UnknownOption ''temp-soft-free=3,7'')"
proof -
  have m: "twoargs ''=3,4'' 0 0 15 = Inr (3, 4)"
    by (simp add: twoargs_def onearg_def strtol_eval)
  have a: "twoargs ''=10,20'' 0 0 50 = Inr (10, 20)"
    by (simp add: twoargs_def onearg_def strtol_eval)
  have f: "twoargs ''=3,7'' 0 0 255 = Inr (3, 7)"
    by (simp add: twoargs_def onearg_def strtol_eval)
  have c: "twoargs [] 0 0 255 = Inr (0, 0)"
    by (simp add: twoargs_def onearg_def)
  have k: "configure_token ''manual=3,4'' dev0 = Inr (mx_cmd 0x87 0x34 0 dev0)"
      "configure_token ''temp-manual=3,4'' dev0 = Inr (mx_cmd 0x07 0x34 0 dev0)"
      "configure_token ''auto=10,20'' dev0 = Inr (mx_cmd 0x85 10 20 dev0)"
      "configure_token ''temp-auto=10,20'' dev0 = Inr (mx_cmd 0x05 10 20 dev0)"
      "configure_token ''soft-free=3,7'' dev0 = Inr (mx_cmd 3 3 7 dev0)"
      "configure_token ''soft-click'' dev0 = Inr (mx_cmd 4 0 0 dev0)"
    by (simp_all add: branch_eval m a f c manual_cmd_def)
  have u: "configure_token ''temp-soft-free=3,7'' dev0 =
      Inl (UnknownOption ''temp-soft-free=3,7'')"
    using persistence_bit [OF m a f c, of dev0] by simp
  show ?thesis using u by (simp add: k)
qed

section \<open>What a write transmits\<close>

text \<open>
  \<open>send_report\<close> called with a payload and its length writes the report id and then the
  payload, one byte more than the payload; \<open>mx_cmd\<close> calls it with report id 0x10 and a
  payload of six bytes that starts with \<open>first_byte\<close>.
\<close>

lemma send_report_prepends_id:
  "trace (send_report rid payload (int (length payload)) d) = trace d @ [Write (rid # payload)] \<and>
   length (rid # payload) = length payload + 1"
  by simp

lemma mx_cmd_frame:
  "\<exists>payload. trace (mx_cmd b1 b2 b3 d) = trace d @ [Write (0x10 # payload)] \<and>
     length payload = 6 \<and> payload ! 0 = first_byte d"
  by simp

lemma nargs_loop_empty:
  "nargs_loop n [] del i def mn mx = Inr (replicate n (word_of_int def), i, [])"
  by (induction n arbitrary: del) (simp_all add: onearg_def)

lemma onearg_one:
  "r = [] \<or> hd r = CHR '','' \<Longrightarrow> onearg (c # CHR ''1'' # r) c 0 0 255 = Inr (1, r)"
  by (cases r) (auto simp: onearg_def strtol_eval Let_def split: list.splits)

lemma ones_shape:
  "concat (replicate n '',1'') = [] \<or> hd (concat (replicate n '',1'')) = CHR '',''"
  by (cases n) simp_all

lemma nargs_loop_ones:
  "nargs_loop n (concat (replicate n '',1'')) CHR '','' i 0 0 255 =
     Inr (replicate n 1, i + int n, [])"
proof (induction n arbitrary: i)
  case 0
  then show ?case by simp
next
  case (Suc n)
  have "onearg (CHR '','' # CHR ''1'' # concat (replicate n '',1'')) CHR '','' 0 0 255 =
      Inr (1, concat (replicate n '',1''))"
    by (rule onearg_one) (rule ones_shape)
  then show ?case using Suc.IH [of "i + 1"] by simp
qed

lemma nargs_256_values:
  "nargs (CHR ''='' # CHR ''1'' # concat (replicate 255 '',1'')) 256 0 0 255 =
     Inr (1 # replicate 255 1, 256)"
proof -
  have s: "(256 :: nat) = Suc 255" by simp
  have o: "onearg (CHR ''='' # CHR ''1'' # concat (replicate 255 '',1'')) CHR ''='' 0 0 255 =
      Inr (1, concat (replicate 255 '',1''))"
    by (rule onearg_one) (rule ones_shape)
  have n: "nargs_loop 255 (concat (replicate 255 '',1'')) CHR '','' 1 0 0 255 =
      Inr (replicate 255 1, 256, [])"
    using nargs_loop_ones [of 255 1] by simp
  have l: "nargs_loop (Suc 255) (CHR ''='' # CHR ''1'' # concat (replicate 255 '',1''))
        CHR ''='' 0 0 0 255 = Inr (1 # replicate 255 1, 256, [])"
    by (subst nargs_loop.simps) (simp add: o n)
  show ?thesis unfolding nargs_def s l by simp
qed

text \<open>
  Claim C5, where the code departs from it.  The \<open>raw\<close> command keeps the count of
  \<open>nargs\<close> in a byte \<open>n\<close> and calls \<open>send_report\<close> with the length \<open>n - 1\<close>.  With no
  value (\<open>revoco raw\<close>) the count is 0, and with 256 values (\<open>raw=1,1,...,1\<close>: a report id
  and 255 payload bytes) the count 256 is 0 in the byte: the length is -1 both times, and
  the write hands over no byte at all, neither the report id nor the payload.
\<close>

theorem raw_zero_count_writes_nothing:
  "configure [''raw''] dev0 = (dev0\<lparr>trace := [Write []]\<rparr>, None) \<and>
   configure [''raw=1'' @ concat (replicate 255 '',1'')] dev0 =
     (dev0\<lparr>trace := [Write []]\<rparr>, None)"
proof -
  have a: "configure [''raw''] dev0 = (dev0\<lparr>trace := [Write []]\<rparr>, None)"
    by (simp add: branch_eval nargs_def nargs_loop_empty send_report_def emit_def dev0_def)
  have "configure_token (''raw=1'' @ concat (replicate 255 '',1'')) dev0 =
      Inr (dev0\<lparr>trace := [Write []]\<rparr>)"
    by (simp add: branch_eval nargs_256_values send_report_def emit_def dev0_def)
  then have b: "configure [''raw=1'' @ concat (replicate 255 '',1'')] dev0 =
      (dev0\<lparr>trace := [Write []]\<rparr>, None)"
    by simp
  show ?thesis using a b by blast
qed

section \<open>Decoding one value and a pair\<close>

text \<open>
  Claim C6.  \<open>twoargs\<close> succeeds with \<open>(v1, v2)\<close> exactly when \<open>onearg\<close> with prefix \<open>=\<close>
  and the given default yields \<open>v1\<close> and \<open>onearg\<close> on the rest, with prefix \<open>,\<close> and
  default \<open>v1\<close>, yields \<open>v2\<close> and leaves nothing; a text that holds one value only gives
  that value twice; text left after both values is the fatal error
  \<open>malformed argument\<close>; an error of either call is the error of \<open>twoargs\<close>.  The three
  examples of the claim, with default 0 and bounds 0..15.
\<close>

theorem twoargs_pair:
  "(onearg s CHR ''='' def mn mx = Inr (v1, p) \<and> onearg p CHR '','' (uint v1) mn mx = Inr (v2, [])
      \<longrightarrow> twoargs s def mn mx = Inr (v1, v2)) \<and>
   (twoargs s def mn mx = Inr (v1, v2) \<longrightarrow>
      (\<exists>r. onearg s CHR ''='' def mn mx = Inr (v1, r) \<and>
            onearg r CHR '','' (uint v1) mn mx = Inr (v2, []))) \<and>
   (onearg s CHR ''='' def mn mx = Inr (v1, []) \<longrightarrow> twoargs s def mn mx = Inr (v1, v1)) \<and>
   (onearg s CHR ''='' def mn mx = Inr (v1, p) \<and> onearg p CHR '','' (uint v1) mn mx = Inr (v2, q)
      \<and> q \<noteq> [] \<longrightarrow> twoargs s def mn mx = Inl (MalformedArgument s)) \<and>
   (onearg s CHR ''='' def mn mx = Inl e \<longrightarrow> twoargs s def mn mx = Inl e) \<and>
   (onearg s CHR ''='' def mn mx = Inr (v1, p) \<and> onearg p CHR '','' (uint v1) mn mx = Inl e
      \<longrightarrow> twoargs s def mn mx = Inl e) \<and>
   twoargs ''=4,5'' 0 0 15 = Inr (4, 5) \<and>
   twoargs ''=4'' 0 0 15 = Inr (4, 4) \<and>
   twoargs '''' 0 0 15 = Inr (0, 0)"
proof -
  have e1: "twoargs ''=4,5'' 0 0 15 = Inr (4, 5)"
    by (simp add: twoargs_def onearg_def strtol_eval)
  have e2: "twoargs ''=4'' 0 0 15 = Inr (4, 4)"
    by (simp add: twoargs_def onearg_def strtol_eval)
  have e3: "twoargs '''' 0 0 15 = Inr (0, 0)"
    by (simp add: twoargs_def onearg_def)
  have single: "onearg [] CHR '','' (uint v1) mn mx = Inr (v1, [])"
    by (simp add: onearg_def)
  have conv: "twoargs s def mn mx = Inr (v1, v2) \<longrightarrow>
      (\<exists>r. onearg s CHR ''='' def mn mx = Inr (v1, r) \<and>
            onearg r CHR '','' (uint v1) mn mx = Inr (v2, []))"
    by (auto simp: twoargs_def split: sum.splits prod.splits if_splits)
  show ?thesis using e1 e2 e3 single conv by (auto simp: twoargs_def)
qed

theorem twoargs_pair_witness:
  "onearg ''=4,5'' CHR ''='' 0 0 15 = Inr (4, '',5'') \<and>
   onearg '',5'' CHR '','' (uint (4 :: u8)) 0 15 = Inr (5, []) \<and>
   twoargs ''=4,5'' 0 0 15 = Inr (4, 5) \<and>
   onearg ''=4,5,6'' CHR ''='' 0 0 15 = Inr (4, '',5,6'') \<and>
   onearg '',5,6'' CHR '','' (uint (4 :: u8)) 0 15 = Inr (5, '',6'') \<and>
   twoargs ''=4,5,6'' 0 0 15 = Inl (MalformedArgument ''=4,5,6'')"
proof -
  have a: "onearg ''=4,5'' CHR ''='' 0 0 15 = Inr (4, '',5'')"
    by (simp add: onearg_def strtol_eval)
  have b: "onearg '',5'' CHR '','' (uint (4 :: u8)) 0 15 = Inr (5, [])"
    by (simp add: onearg_def strtol_eval)
  have c: "onearg ''=4,5,6'' CHR ''='' 0 0 15 = Inr (4, '',5,6'')"
    by (simp add: onearg_def strtol_eval)
  have d: "onearg '',5,6'' CHR '','' (uint (4 :: u8)) 0 15 = Inr (5, '',6'')"
    by (simp add: onearg_def strtol_eval)
  have "twoargs ''=4,5'' 0 0 15 = Inr (4, 5)"
    using twoargs_pair [of "''=4,5''" 0 0 15 4 "'',5''" 5] a b by blast
  moreover have "twoargs ''=4,5,6'' 0 0 15 = Inl (MalformedArgument ''=4,5,6'')"
    using twoargs_pair [of "''=4,5,6''" 0 0 15 4 "'',5,6''" 5 "'',6''"] c d by blast
  ultimately show ?thesis using a b c d by blast
qed

text \<open>
  What \<open>onearg\<close> does where the default is a byte value, 0 to 255, as it is in every call
  but the one of \<open>query\<close>.  On the empty text the value is the default and the text is
  returned as it is.  A text that does not start with the prefix is the fatal error
  \<open>bad argument\<close>.  When \<open>strtol\<close> reads a number (\<open>k\<close> characters, not none) that is
  below \<open>min\<close> or above \<open>max\<close>, the fatal error \<open>out of range\<close> carries the characters
  read and the two bounds.  The two examples of the specification.
\<close>

lemma onearg_cases:
  "(0 \<le> def \<and> def \<le> 255 \<longrightarrow> (\<exists>v. onearg [] c def mn mx = Inr (v, []) \<and> uint v = def)) \<and>
   (s \<noteq> [] \<and> hd s \<noteq> c \<longrightarrow> onearg s c def mn mx = Inl (BadArgument s c)) \<and>
   (strtol s = (n, k) \<and> k \<noteq> 0 \<and> (n < mn \<or> n > mx)
      \<longrightarrow> onearg (c # s) c def mn mx = Inl (ArgumentOutOfRange (take k s) mn mx)) \<and>
   onearg ''=16'' CHR ''='' 0 0 15 = Inl (ArgumentOutOfRange ''16'' 0 15) \<and>
   onearg ''4'' CHR ''='' 0 0 15 = Inl (BadArgument ''4'' CHR ''='')"
proof -
  have r: "0 \<le> def \<and> def \<le> 255 \<longrightarrow> uint (word_of_int def :: u8) = def"
    by (simp add: uint_word_of_int)
  have e1: "onearg ''=16'' CHR ''='' 0 0 15 = Inl (ArgumentOutOfRange ''16'' 0 15)"
    by (simp add: onearg_def strtol_eval)
  have e2: "onearg ''4'' CHR ''='' 0 0 15 = Inl (BadArgument ''4'' CHR ''='')"
    by (simp add: onearg_def)
  show ?thesis using r e1 e2 by (auto simp: onearg_def)
qed

lemma onearg_cases_at_16:
  "strtol ''16'' = (16, 2) \<and>
   onearg ''=16'' CHR ''='' 0 0 15 = Inl (ArgumentOutOfRange ''16'' 0 15) \<and>
   onearg ''4'' CHR ''='' 0 0 15 = Inl (BadArgument ''4'' CHR ''='') \<and>
   (\<exists>v. onearg [] CHR ''='' 7 0 15 = Inr (v, []) \<and> uint v = 7)"
proof -
  have s: "strtol ''16'' = (16, 2)" by (simp add: strtol_eval)
  have "onearg (CHR ''='' # ''16'') CHR ''='' 0 0 15 =
      Inl (ArgumentOutOfRange (take 2 ''16'') 0 15)"
    using onearg_cases [where c = "CHR ''=''" and def = 0 and mn = 0 and mx = 15
        and s = "''16''" and n = 16 and k = 2] s by simp
  moreover have "onearg ''4'' CHR ''='' 0 0 15 = Inl (BadArgument ''4'' CHR ''='')"
    using onearg_cases [where c = "CHR ''=''" and def = 0 and mn = 0 and mx = 15
        and s = "''4''"] by simp
  moreover have "\<exists>v. onearg [] CHR ''='' 7 0 15 = Inr (v, []) \<and> uint v = 7"
    using onearg_cases [where c = "CHR ''=''" and def = 7 and mn = 0 and mx = 15] by simp
  ultimately show ?thesis using s by simp
qed

text \<open>
  Claim C7, where the code departs from it.  The \<open>query\<close> command calls \<open>onearg\<close> with
  the default -1 and bounds 0..255, and tests the byte it gets against -1 afterwards.  On
  the empty text \<open>onearg\<close> stores the default into the byte and yields 255, which is not
  the default -1, so the test of the caller never holds.  The calls of the other commands,
  with the defaults 0 and 1, yield their default.
\<close>

theorem onearg_default_minus_one:
  "onearg [] CHR ''='' (- 1) 0 255 = Inr (255, []) \<and> uint (255 :: u8) \<noteq> - 1 \<and>
   \<not> is_minus_one 255 \<and>
   onearg [] CHR ''='' 0 0 15 = Inr (0, []) \<and> uint (0 :: u8) = 0 \<and>
   onearg [] CHR ''='' 1 0 255 = Inr (1, []) \<and> uint (1 :: u8) = 1"
  by (simp add: onearg_def is_minus_one_def)

section \<open>The query and reconnect commands\<close>

lemma query_report_length: "0 \<le> n \<Longrightarrow> length (fst (query_report rid n d)) = nat (n + 1)"
  by (simp add: query_report_def Let_def)

lemma query_report_trace: "trace (snd (query_report rid n d)) = trace d @ [Read rid n]"
  by (simp add: query_report_def Let_def)

text \<open>
  Claim C9.  The test \<open>arg1 == -1\<close> fails for every byte, so for every argument text that
  \<open>twoargs\<close> accepts the \<open>query\<close> command reads with the report id and the length just
  decoded, never with 0x10 and 6 put in their place, and prints as many bytes as the
  length.  With no arguments both bytes are 255, the default -1 stored in a byte, and
  \<open>query\<close> reads with report id 255 and length 255.
\<close>

theorem query_default_unreachable:
  "\<not> is_minus_one a \<and>
   (twoargs s (- 1) 0 255 = Inr (a1, a2) \<longrightarrow>
      (\<exists>buf d'. configure_token (''query'' @ s) d = Inr d' \<and>
         trace d' = trace d @ [Read a1 (uint a2), Print (Report a1 buf)] \<and>
         length buf = unat a2)) \<and>
   twoargs [] (- 1) 0 255 = Inr (255, 255) \<and>
   (\<exists>buf d'. configure_token ''query'' d = Inr d' \<and>
      trace d' = trace d @ [Read 255 255, Print (Report 255 buf)] \<and> length buf = 255)"
proof -
  have g: "\<not> is_minus_one b" for b
  proof -
    have "0 \<le> uint b" by simp
    then show ?thesis unfolding is_minus_one_def by linarith
  qed
  have t: "twoargs [] (- 1) 0 255 = Inr (255, 255)"
    by (simp add: twoargs_def onearg_def)
  have q: "\<exists>buf d'. configure_token (''query'' @ s) d = Inr d' \<and>
         trace d' = trace d @ [Read a1 (uint a2), Print (Report a1 buf)] \<and>
         length buf = unat a2" if h: "twoargs s (- 1) 0 255 = Inr (a1, a2)" for s a1 a2
  proof -
    obtain buf d1 where r: "query_report a1 (uint a2) d = (buf, d1)"
      by (cases "query_report a1 (uint a2) d") blast
    have l: "length buf = nat (uint a2 + 1)"
      using query_report_length [of "uint a2" a1 d] r by simp
    have tr: "trace d1 = trace d @ [Read a1 (uint a2)]"
      using query_report_trace [of a1 "uint a2" d] r by simp
    have c: "configure_token (''query'' @ s) d =
        Inr (emit (Print (Report a1 (take (unat a2) buf))) d1)"
      by (simp add: branch_eval h g r)
    have "length (take (unat a2) buf) = unat a2"
      using l by (simp add: nat_add_distrib)
    then show ?thesis using c tr by simp
  qed
  have q0: "\<exists>buf d'. configure_token ''query'' d = Inr d' \<and>
      trace d' = trace d @ [Read 255 255, Print (Report 255 buf)] \<and> length buf = 255"
    using q [OF t] by simp
  show ?thesis using g t q q0 by blast
qed

theorem query_default_unreachable_witness:
  "twoargs ''=5'' (- 1) 0 255 = Inr (5, 5) \<and>
   (\<exists>buf d'. configure_token ''query=5'' dev0 = Inr d' \<and>
      trace d' = [Read 5 5, Print (Report 5 buf)] \<and> length buf = 5)"
proof -
  have t: "twoargs ''=5'' (- 1) 0 255 = Inr (5, 5)"
    by (simp add: twoargs_def onearg_def strtol_eval)
  show ?thesis using query_default_unreachable [of _ "''=5''" 5 5 dev0] t
    by (simp add: dev0_def)
qed

text \<open>
  Claim C10.  \<open>reconnect\<close> hands what follows the name to \<open>twoargs\<close> with bounds 0..255.
  Whatever two values come back, it writes the same report, id 0x10 and the bytes ff 80 b2
  01 00 00, and prints the instructions; the empty text is accepted.  When \<open>twoargs\<close>
  fails, so does the command, before it writes: \<open>revoco free reconnect=300\<close> stops with
  \<open>argument `300' out of range (0-255)\<close> after the report of \<open>free\<close>.
\<close>

theorem reconnect_discards_arguments:
  "(twoargs s 0 0 255 = Inr (v1, v2) \<longrightarrow>
      configure_token (''reconnect'' @ s) d =
        Inr (emit (Print ReconnectionInitiated)
               (emit (Write [0x10, 0xff, 0x80, 0xb2, 0x01, 0x00, 0x00]) d))) \<and>
   (twoargs s 0 0 255 = Inl e \<longrightarrow> configure_token (''reconnect'' @ s) d = Inl e) \<and>
   twoargs [] 0 0 255 = Inr (0, 0) \<and>
   configure [''free'', ''reconnect=300''] d =
     (mx_cmd 0x81 0 0 d, Some (ArgumentOutOfRange ''300'' 0 255))"
proof -
  have 1: "twoargs s 0 0 255 = Inr (v1, v2) \<longrightarrow>
      configure_token (''reconnect'' @ s) d =
        Inr (emit (Print ReconnectionInitiated)
               (emit (Write [0x10, 0xff, 0x80, 0xb2, 0x01, 0x00, 0x00]) d))"
    by (simp add: branch_eval send_report_def)
  have 2: "twoargs s 0 0 255 = Inl e \<longrightarrow> configure_token (''reconnect'' @ s) d = Inl e"
    by (simp add: branch_eval)
  have 3: "twoargs [] 0 0 255 = Inr (0, 0)"
    by (simp add: twoargs_def onearg_def)
  have 4: "configure [''free'', ''reconnect=300''] d =
     (mx_cmd 0x81 0 0 d, Some (ArgumentOutOfRange ''300'' 0 255))"
    by (simp add: tok_eval)
  show ?thesis using 1 2 3 4 by blast
qed

theorem reconnect_discards_arguments_witness:
  "twoargs ''=1,2'' 0 0 255 = Inr (1, 2) \<and>
   configure_token ''reconnect=1,2'' dev0 =
     Inr (dev0\<lparr>trace := [Write [0x10, 0xff, 0x80, 0xb2, 0x01, 0x00, 0x00],
                           Print ReconnectionInitiated]\<rparr>) \<and>
   twoargs ''=300'' 0 0 255 = Inl (ArgumentOutOfRange ''300'' 0 255) \<and>
   configure_token ''reconnect=300'' dev0 = Inl (ArgumentOutOfRange ''300'' 0 255)"
proof -
  have a: "twoargs ''=1,2'' 0 0 255 = Inr (1, 2)"
    by (simp add: twoargs_def onearg_def strtol_eval)
  have b: "twoargs ''=300'' 0 0 255 = Inl (ArgumentOutOfRange ''300'' 0 255)"
    by (simp add: twoargs_def onearg_def strtol_eval)
  have "configure_token (''reconnect'' @ ''=1,2'') dev0 =
     Inr (emit (Print ReconnectionInitiated)
            (emit (Write [0x10, 0xff, 0x80, 0xb2, 0x01, 0x00, 0x00]) dev0))"
    using reconnect_discards_arguments [of "''=1,2''" 1 2 dev0] a by blast
  moreover have "configure_token (''reconnect'' @ ''=300'') dev0 =
      Inl (ArgumentOutOfRange ''300'' 0 255)"
    using reconnect_discards_arguments [of "''=300''" _ _ dev0 "ArgumentOutOfRange ''300'' 0 255"] b
    by blast
  ultimately show ?thesis using a b by (simp add: emit_def dev0_def)
qed

end
